theory Spec2Isabelle
  imports Main
begin

section \<open>Package server: an HTTP server that shuts down gracefully\<close>

text \<open>
  The Go package \<^verbatim>\<open>server\<close> (file \<^verbatim>\<open>server.go\<close>) wraps an \<^verbatim>\<open>http.Server\<close>:
  \<^verbatim>\<open>New\<close> assembles the configuration, \<^verbatim>\<open>Addr\<close> reads the bind address back and
  \<^verbatim>\<open>ListenAndServe\<close> runs the server until either the serve loop ends or the caller's
  context is done, in which case \<^verbatim>\<open>shutdown\<close> drains it under a deadline.

  The package's own four functions are embedded below as they are written. What they call
  in Go's standard library (\<^verbatim>\<open>net.JoinHostPort\<close>, \<^verbatim>\<open>context\<close>, the \<^verbatim>\<open>select\<close> statement,
  \<^verbatim>\<open>http.Server.ListenAndServe\<close> and \<^verbatim>\<open>http.Server.Shutdown\<close>) is not part of the
  package; each is given a small model of its documented behaviour, driven by a record
  \<open>world\<close> that fixes what the network and the clients do during one run.
\<close>

subsection \<open>Go values\<close>

text \<open>
  A Go \<^verbatim>\<open>error\<close> is an interface value: \<^verbatim>\<open>nil\<close> (here \<open>None\<close>) or some error. The
  sentinels the package can meet are \<^verbatim>\<open>http.ErrServerClosed\<close> and the two errors of
  package \<^verbatim>\<open>context\<close>; every other error (a bind failure, a failed close of a listener)
  is \<open>OtherError\<close> with its message.
\<close>

datatype go_error = ErrServerClosed | DeadlineExceeded | Canceled | OtherError string

type_synonym error = "go_error option"

text \<open>
  \<^verbatim>\<open>time.Duration\<close> counts nanoseconds. The package only multiplies \<^verbatim>\<open>time.Second\<close> by
  5 and by 10, far from the limits of its 64 bits, so durations and instants are natural
  numbers. Instants are counted from the call of \<^verbatim>\<open>ListenAndServe\<close>.
\<close>

type_synonym Duration = nat
type_synonym Time = nat

definition Second :: Duration where
  "Second = 1000000000"

text \<open>What a Go call can do: panic, never come back, or return a value.\<close>

datatype 'a exec = Panics | Blocks | Returns 'a

subsection \<open>Package context\<close>

text \<open>
  A context is \<^verbatim>\<open>context.Background()\<close> or is derived from a parent, with a deadline or
  with a cancel function; for the latter the instant at which the caller cancels (if ever)
  is written into the value. \<open>Done_at\<close> is the instant at which the channel \<^verbatim>\<open>Done()\<close>
  is closed, \<open>ctx_Err\<close> what \<^verbatim>\<open>Err()\<close> returns from then on.

  The type holds the contexts a caller may pass. A \<^verbatim>\<open>nil\<close> context is not among them:
  package \<^verbatim>\<open>context\<close> forbids passing one, and \<^verbatim>\<open>ListenAndServe(nil)\<close> would panic at
  \<^verbatim>\<open>ctx.Done()\<close>. Whatever is proved below is proved for contexts that are not \<^verbatim>\<open>nil\<close>.
\<close>

datatype "context" = Background | WithDeadline "context" Time | WithCancel "context" "Time option"

fun earliest :: "Time option \<Rightarrow> Time option \<Rightarrow> Time option" where
  "earliest None b = b"
| "earliest (Some a) None = Some a"
| "earliest (Some a) (Some b) = Some (min a b)"

fun Done_at :: "context \<Rightarrow> Time option" where
  "Done_at Background = None"
| "Done_at (WithDeadline parent d) = earliest (Done_at parent) (Some d)"
| "Done_at (WithCancel parent c) = earliest (Done_at parent) c"

fun ctx_Err :: "context \<Rightarrow> error" where
  "ctx_Err Background = None"
| "ctx_Err (WithDeadline parent d) =
     (case Done_at parent of
        None \<Rightarrow> Some DeadlineExceeded
      | Some t \<Rightarrow> if t \<le> d then ctx_Err parent else Some DeadlineExceeded)"
| "ctx_Err (WithCancel parent c) =
     (case c of
        None \<Rightarrow> ctx_Err parent
      | Some tc \<Rightarrow>
          (case Done_at parent of
             None \<Rightarrow> Some Canceled
           | Some t \<Rightarrow> if t \<le> tc then ctx_Err parent else Some Canceled))"

text \<open>
  \<^verbatim>\<open>context.WithTimeout(parent, d)\<close> is \<^verbatim>\<open>WithDeadline(parent, time.Now().Add(d))\<close>; the
  clock is passed in. The cancel function it also returns is only deferred by the package,
  to the moment \<^verbatim>\<open>shutdown\<close> returns, and changes no result.
\<close>

definition WithTimeout :: "Time \<Rightarrow> context \<Rightarrow> Duration \<Rightarrow> context" where
  "WithTimeout now parent timeout = WithDeadline parent (now + timeout)"

subsection \<open>The server value\<close>

text \<open>
  \<^verbatim>\<open>http.Server\<close> with the five fields the package sets; the handler is opaque. The
  struct \<^verbatim>\<open>Server\<close> holds a pointer to it, which is \<^verbatim>\<open>nil\<close> in the zero value
  \<^verbatim>\<open>Server{}\<close>.
\<close>

record 'h http_Server =
  http_Addr :: string
  Handler :: 'h
  ReadTimeout :: Duration
  WriteTimeout :: Duration
  IdleTimeout :: Duration

record 'h Server =
  s :: "'h http_Server option"

text \<open>
  \<^verbatim>\<open>net.JoinHostPort\<close>: a host with a colon is taken for a literal IPv6 address and put in
  brackets.
\<close>

definition JoinHostPort :: "string \<Rightarrow> string \<Rightarrow> string" where
  "JoinHostPort host port =
     (if CHR '':'' \<in> set host then ''['' @ host @ '']:'' @ port else host @ '':'' @ port)"

definition New :: "string \<Rightarrow> 'h \<Rightarrow> 'h Server" where
  "New port h =
     \<lparr>s = Some \<lparr>http_Addr = JoinHostPort ''0.0.0.0'' port,
                 Handler = h,
                 ReadTimeout = 5 * Second,
                 WriteTimeout = 5 * Second,
                 IdleTimeout = 5 * Second\<rparr>\<rparr>"

text \<open>\<^verbatim>\<open>s.s.Addr\<close> dereferences the pointer.\<close>

definition Addr :: "'h Server \<Rightarrow> string exec" where
  "Addr srv = (case s srv of None \<Rightarrow> Panics | Some hs \<Rightarrow> Returns (http_Addr hs))"

subsection \<open>One run of the transport\<close>

text \<open>
  What the black box does during one run:
  \<^item> \<open>serve_end\<close>: the instant at which \<^verbatim>\<open>http.Server.ListenAndServe\<close> returns without
    having been asked to by this run, and its error, which is never \<^verbatim>\<open>nil\<close> (a bind
    failure at once, a fatal accept error later, \<^verbatim>\<open>ErrServerClosed\<close> when something else
    closed the server); \<open>None\<close> when it serves for as long as it is left alone;
  \<^item> \<open>pick_done\<close>: which case \<^verbatim>\<open>select\<close> takes when both are ready;
  \<^item> \<open>lnerr\<close>: what closing the listeners returns inside \<^verbatim>\<open>Shutdown\<close>;
  \<^item> \<open>in_flight\<close>: how long the requests in flight need once \<^verbatim>\<open>Shutdown\<close> is called;
    \<open>None\<close> when they never finish;
  \<^item> \<open>poll_lag\<close>: \<^verbatim>\<open>Shutdown\<close> is not told when the last request ends. It looks at the
    connections when it is called and then each time its poll timer fires (after 1 ms at
    first, the interval doubling up to 500 ms, with jitter); \<open>poll_lag\<close> is the time
    from the end of the last request to the next such look.
\<close>

record world =
  serve_end :: "(Time \<times> go_error) option"
  pick_done :: bool
  lnerr :: error
  in_flight :: "Duration option"
  poll_lag :: Duration

text \<open>
  The delay after which \<^verbatim>\<open>Shutdown\<close> finds every connection idle: none when nothing is
  in flight at the call, since it looks at once; otherwise the requests' duration and the
  lag of the next poll; never, when the requests never finish.
\<close>

definition drain :: "world \<Rightarrow> Duration option" where
  "drain w =
     (case in_flight w of
        None \<Rightarrow> None
      | Some d \<Rightarrow> Some (if d = 0 then 0 else d + poll_lag w))"

text \<open>
  \<^verbatim>\<open>go func() { errC <- s.s.ListenAndServe() }()\<close>: the channel has room for one value, so
  the send never blocks, and the value is ready to be received at the instant the serve
  loop ends.
\<close>

definition errC :: "world \<Rightarrow> (Time \<times> error) option" where
  "errC w = (case serve_end w of None \<Rightarrow> None | Some (t, e) \<Rightarrow> Some (t, Some e))"

text \<open>
  \<^verbatim>\<open>select\<close> over \<^verbatim>\<open><-ctx.Done()\<close> and \<^verbatim>\<open>err := <-errC\<close>: it sleeps until a case is ready
  and takes it; when both are ready together the runtime picks one. With no case ever
  ready it sleeps for ever.
\<close>

datatype select_case = CtxDone | ErrRecv error

definition select_first ::
  "Time option \<Rightarrow> (Time \<times> error) option \<Rightarrow> bool \<Rightarrow> (Time \<times> select_case) option" where
  "select_first done recv pick =
     (case done of
        None \<Rightarrow> (case recv of None \<Rightarrow> None | Some (ts, err) \<Rightarrow> Some (ts, ErrRecv err))
      | Some tc \<Rightarrow>
          (case recv of
             None \<Rightarrow> Some (tc, CtxDone)
           | Some (ts, err) \<Rightarrow>
               if tc < ts \<or> (tc = ts \<and> pick) then Some (tc, CtxDone)
               else Some (ts, ErrRecv err)))"

text \<open>
  \<^verbatim>\<open>http.Server.Shutdown(ctx)\<close>, called at \<open>now\<close>: it closes the listeners and then loops.
  Each turn looks at the connections first and, if all are idle, returns the error of
  closing the listeners; otherwise it waits for the context or the poll timer, returns the
  context's error if the context is done, and takes another turn on the timer. So it
  returns the listeners' error at the first look that finds the connections idle, provided
  the context was not done before that look, and the context's error otherwise. The first
  look comes before the context is consulted at all, so with nothing in flight even an
  expired context yields the listeners' error. When a later look and the context fall on
  the same instant the runtime may take either; the look is taken here.
\<close>

definition http_Shutdown :: "world \<Rightarrow> Time \<Rightarrow> context \<Rightarrow> (Time \<times> error) exec" where
  "http_Shutdown w now ctx =
     (case drain w of
        None \<Rightarrow>
          (case Done_at ctx of
             None \<Rightarrow> Blocks
           | Some t \<Rightarrow> Returns (max now t, ctx_Err ctx))
      | Some d \<Rightarrow>
          (case Done_at ctx of
             None \<Rightarrow> Returns (now + d, lnerr w)
           | Some t \<Rightarrow>
               if d = 0 \<or> now + d \<le> t then Returns (now + d, lnerr w)
               else Returns (max now t, ctx_Err ctx)))"

subsection \<open>ListenAndServe and shutdown\<close>

text \<open>
  A finished run: the error returned, the instant of the return, and what the call did, in
  order.
\<close>

datatype effect = Go_ListenAndServe | Recv_Done | Recv_errC error | Call_Shutdown "context"

record run =
  ret :: error
  returned_at :: Time
  trace :: "effect list"

text \<open>
  \<^verbatim>\<open>shutdown\<close> makes its own context from \<^verbatim>\<open>context.Background()\<close> with a timeout of
  \<^verbatim>\<open>10*time.Second\<close> and returns what \<^verbatim>\<open>s.s.Shutdown(ctx)\<close> returns.
\<close>

definition shutdown :: "'h Server \<Rightarrow> world \<Rightarrow> Time \<Rightarrow> (Time \<times> error \<times> effect list) exec" where
  "shutdown srv w now =
     (let ctx = WithTimeout now Background (10 * Second) in
      case s srv of
        None \<Rightarrow> Panics
      | Some hs \<Rightarrow>
          (case http_Shutdown w now ctx of
             Panics \<Rightarrow> Panics
           | Blocks \<Rightarrow> Blocks
           | Returns (t, err) \<Rightarrow> Returns (t, err, [Call_Shutdown ctx])))"

text \<open>
  \<^verbatim>\<open>ListenAndServe\<close>: start the serve loop in a goroutine, then \<^verbatim>\<open>select\<close>. On
  \<^verbatim>\<open>ctx.Done()\<close> return \<^verbatim>\<open>s.shutdown()\<close>; on a value from \<^verbatim>\<open>errC\<close> return it unless it
  is \<^verbatim>\<open>http.ErrServerClosed\<close>, for which \<^verbatim>\<open>nil\<close> is returned. With a \<^verbatim>\<open>nil\<close> pointer the
  goroutine (or \<^verbatim>\<open>shutdown\<close>) dereferences it and the program panics.
\<close>

definition ListenAndServe :: "'h Server \<Rightarrow> world \<Rightarrow> context \<Rightarrow> run exec" where
  "ListenAndServe srv w ctx =
     (case s srv of
        None \<Rightarrow> Panics
      | Some hs \<Rightarrow>
          (case select_first (Done_at ctx) (errC w) (pick_done w) of
             None \<Rightarrow> Blocks
           | Some (t, CtxDone) \<Rightarrow>
               (case shutdown srv w t of
                  Panics \<Rightarrow> Panics
                | Blocks \<Rightarrow> Blocks
                | Returns (t', err, effs) \<Rightarrow>
                    Returns \<lparr>ret = err, returned_at = t',
                             trace = [Go_ListenAndServe, Recv_Done] @ effs\<rparr>)
           | Some (t, ErrRecv err) \<Rightarrow>
               if err \<noteq> Some ErrServerClosed
               then Returns \<lparr>ret = err, returned_at = t,
                             trace = [Go_ListenAndServe, Recv_errC err]\<rparr>
               else Returns \<lparr>ret = None, returned_at = t,
                             trace = [Go_ListenAndServe, Recv_errC err]\<rparr>))"

subsection \<open>Reading a run\<close>

text \<open>The contexts handed to \<^verbatim>\<open>Shutdown\<close> and the signals received, read off a trace.\<close>

fun shutdown_calls :: "effect list \<Rightarrow> context list" where
  "shutdown_calls [] = []"
| "shutdown_calls (Call_Shutdown c # es) = c # shutdown_calls es"
| "shutdown_calls (e # es) = shutdown_calls es"

fun observed :: "effect list \<Rightarrow> select_case list" where
  "observed [] = []"
| "observed (Recv_Done # es) = CtxDone # observed es"
| "observed (Recv_errC err # es) = ErrRecv err # observed es"
| "observed (e # es) = observed es"

text \<open>
  The specification names three outcomes and ties two of them to the path taken. In its
  words: an abnormal exit comes only from the serve loop ending first, a shutdown timeout
  only from the cancellation path when the drain does not finish in time, and a clean exit
  is the success path. \<open>outcome_of\<close> reads a run in exactly these words, path
  included, and is \<open>None\<close> for an error returned on the cancellation path that is not
  the timeout: the specification has no name for it. The caller itself receives the error
  value only, and the package's own comment calls every error that is not \<^verbatim>\<open>nil\<close> an
  abnormal exit or a failure to shut down in time; statements about what the caller
  receives are therefore made on \<open>ret\<close>, not on \<open>outcome_of\<close>.
\<close>

datatype Outcome = CleanExit | AbnormalExit go_error | ShutdownTimeout

definition outcome_of :: "run \<Rightarrow> Outcome option" where
  "outcome_of r =
     (case ret r of
        None \<Rightarrow> Some CleanExit
      | Some e \<Rightarrow>
          if observed (trace r) = [CtxDone]
          then (if e = DeadlineExceeded then Some ShutdownTimeout else None)
          else Some (AbnormalExit e))"

section \<open>Basic facts\<close>

lemma ten_seconds: "10 * Second = 10000000000"
  by (simp add: Second_def)

lemma JoinHostPort_wildcard: "JoinHostPort ''0.0.0.0'' port = ''0.0.0.0:'' @ port"
  by (simp add: JoinHostPort_def)

lemma New_pointer:
  "s (New port h) =
     Some \<lparr>http_Addr = ''0.0.0.0:'' @ port, Handler = h, ReadTimeout = 5 * Second,
           WriteTimeout = 5 * Second, IdleTimeout = 5 * Second\<rparr>"
  by (simp add: New_def JoinHostPort_wildcard)

text \<open>What the serve loop does is of no concern to the drain.\<close>

lemma drain_serve_end_update [simp]: "drain (w\<lparr>serve_end := x\<rparr>) = drain w"
  by (simp add: drain_def cong: option.case_cong if_cong)

text \<open>
  Under a deadline ten seconds after the call \<^verbatim>\<open>Shutdown\<close> always comes back: with the
  listeners' error when it finds the connections idle within the ten seconds, with the
  deadline's error otherwise.
\<close>

lemma http_Shutdown_fresh:
  "http_Shutdown w now (WithDeadline Background (now + 10 * Second)) =
     (case drain w of
        None \<Rightarrow> Returns (now + 10 * Second, Some DeadlineExceeded)
      | Some d \<Rightarrow>
          if d \<le> 10 * Second then Returns (now + d, lnerr w)
          else Returns (now + 10 * Second, Some DeadlineExceeded))"
  by (auto simp add: http_Shutdown_def max_def split: option.splits)

lemma shutdown_deadline:
  "s srv = Some hs \<Longrightarrow>
   shutdown srv w now =
     (case drain w of
        None \<Rightarrow> Returns (now + 10 * Second, Some DeadlineExceeded,
                  [Call_Shutdown (WithDeadline Background (now + 10 * Second))])
      | Some d \<Rightarrow>
          if d \<le> 10 * Second
          then Returns (now + d, lnerr w,
                  [Call_Shutdown (WithDeadline Background (now + 10 * Second))])
          else Returns (now + 10 * Second, Some DeadlineExceeded,
                  [Call_Shutdown (WithDeadline Background (now + 10 * Second))]))"
  by (simp add: shutdown_def WithTimeout_def http_Shutdown_fresh split: option.splits)

text \<open>The two branches of the \<^verbatim>\<open>select\<close>, each as one equation.\<close>

lemma ListenAndServe_cancel:
  "s srv = Some hs \<Longrightarrow>
   select_first (Done_at ctx) (errC w) (pick_done w) = Some (tc, CtxDone) \<Longrightarrow>
   ListenAndServe srv w ctx =
     Returns \<lparr>ret = (case drain w of None \<Rightarrow> Some DeadlineExceeded
                      | Some d \<Rightarrow> if d \<le> 10 * Second then lnerr w else Some DeadlineExceeded),
              returned_at = (case drain w of None \<Rightarrow> tc + 10 * Second
                      | Some d \<Rightarrow> if d \<le> 10 * Second then tc + d else tc + 10 * Second),
              trace = [Go_ListenAndServe, Recv_Done,
                       Call_Shutdown (WithDeadline Background (tc + 10 * Second))]\<rparr>"
  by (simp add: ListenAndServe_def shutdown_deadline split: option.splits)

lemma ListenAndServe_recv:
  "s srv = Some hs \<Longrightarrow>
   select_first (Done_at ctx) (errC w) (pick_done w) = Some (ts, ErrRecv err) \<Longrightarrow>
   ListenAndServe srv w ctx =
     Returns \<lparr>ret = (if err = Some ErrServerClosed then None else err), returned_at = ts,
              trace = [Go_ListenAndServe, Recv_errC err]\<rparr>"
  by (simp add: ListenAndServe_def)

lemma select_first_recv_iff:
  "select_first (Done_at ctx) (errC w) (pick_done w) = Some (ts, ErrRecv err) \<longleftrightarrow>
   (\<exists>e. serve_end w = Some (ts, e) \<and> err = Some e \<and>
     (Done_at ctx = None \<or>
      (\<exists>tc. Done_at ctx = Some tc \<and> \<not> (tc < ts \<or> tc = ts \<and> pick_done w))))"
  by (auto simp add: select_first_def errC_def split: option.splits)

lemma select_first_cancel_Done:
  "select_first (Done_at ctx) (errC w) (pick_done w) = Some (tc, CtxDone) \<Longrightarrow>
   Done_at ctx = Some tc"
  by (auto simp add: select_first_def errC_def split: option.splits if_splits)

lemma select_first_None_iff:
  "select_first (Done_at ctx) (errC w) (pick_done w) = None \<longleftrightarrow>
   Done_at ctx = None \<and> serve_end w = None"
  by (auto simp add: select_first_def errC_def split: option.splits)

section \<open>Construction and the address\<close>

text \<open>
  C8. For every port passed to \<^verbatim>\<open>New\<close>, \<^verbatim>\<open>Addr()\<close> returns the wildcard interface
  \<^verbatim>\<open>0.0.0.0\<close>, a colon and that exact port. It returns: it neither panics nor blocks, and it
  reads the configuration only.
\<close>

theorem Addr_New: "Addr (New port h) = Returns (''0.0.0.0:'' @ port)"
  by (simp add: Addr_def New_def JoinHostPort_wildcard)

theorem Addr_New_witness: "Addr (New ''8080'' ()) = Returns ''0.0.0.0:8080''"
  using Addr_New [of "''8080''" "()"] by simp

text \<open>
  C9. \<^verbatim>\<open>New(port, handler)\<close> always yields a server value: a configuration with the bind
  address \<^verbatim>\<open>0.0.0.0:port\<close>, the handler as given, and read, write and idle timeouts of
  five seconds each (\<open>5 * 10\<^sup>9\<close> nanoseconds). It is a value and nothing else: no
  run of the transport is involved.
\<close>

theorem New_config:
  "New port h =
     \<lparr>s = Some \<lparr>http_Addr = ''0.0.0.0:'' @ port, Handler = h,
                 ReadTimeout = 5000000000, WriteTimeout = 5000000000,
                 IdleTimeout = 5000000000\<rparr>\<rparr>"
  by (simp add: New_def JoinHostPort_wildcard Second_def)

theorem New_config_witness:
  "New ''0'' () =
     \<lparr>s = Some \<lparr>http_Addr = ''0.0.0.0:0'', Handler = (),
                 ReadTimeout = 5000000000, WriteTimeout = 5000000000,
                 IdleTimeout = 5000000000\<rparr>\<rparr>"
  using New_config [of "''0''" "()"] by simp

section \<open>The serve loop ends first\<close>

text \<open>
  C1 says that a serve loop's end counts as a clean exit only when this same run had begun
  the shutdown, kept in a flag of its own, and that the server's clean-closure value
  arriving without that is not a clean exit. The package keeps no such flag: it compares
  the received value with \<^verbatim>\<open>http.ErrServerClosed\<close>. Here the server listens on port 0,
  no cancellation is ever sent, and the transport closes normally at instant 3 (another
  run on a copy of the same server value shut it down, say): this run called
  \<^verbatim>\<open>Shutdown\<close> not once, and it returns \<^verbatim>\<open>nil\<close>, a clean exit.
\<close>

theorem clean_exit_without_own_shutdown_counterexample:
  "ListenAndServe (New ''0'' ())
     \<lparr>serve_end = Some (3, ErrServerClosed), pick_done = False, lnerr = None, in_flight = Some 0, poll_lag = 0\<rparr>
     Background
   = Returns \<lparr>ret = None, returned_at = 3,
              trace = [Go_ListenAndServe, Recv_errC (Some ErrServerClosed)]\<rparr>
   \<and> outcome_of \<lparr>ret = None, returned_at = 3,
              trace = [Go_ListenAndServe, Recv_errC (Some ErrServerClosed)]\<rparr> = Some CleanExit
   \<and> shutdown_calls [Go_ListenAndServe, Recv_errC (Some ErrServerClosed)] = []"
  by (simp add: ListenAndServe_def New_def select_first_def errC_def outcome_of_def)

text \<open>
  C1, as the package has it. When the value of the serve loop is what \<^verbatim>\<open>select\<close>
  receives, the run returns, it is a clean exit exactly when that value is the server's
  own clean-closure marker \<^verbatim>\<open>http.ErrServerClosed\<close>, and on this path the run has called
  \<^verbatim>\<open>Shutdown\<close> not once: the verdict is read off the value alone.
\<close>

theorem serve_end_clean_iff_ErrServerClosed:
  assumes "s srv = Some hs"
    and "select_first (Done_at ctx) (errC w) (pick_done w) = Some (ts, ErrRecv err)"
  shows "\<exists>r. ListenAndServe srv w ctx = Returns r \<and>
           observed (trace r) = [ErrRecv err] \<and>
           shutdown_calls (trace r) = [] \<and>
           (outcome_of r = Some CleanExit \<longleftrightarrow> err = Some ErrServerClosed)"
proof -
  from assms(2) obtain e where e: "err = Some e"
    by (auto simp add: select_first_recv_iff)
  show ?thesis
    using assms e by (simp add: ListenAndServe_recv outcome_of_def)
qed

theorem serve_end_clean_iff_ErrServerClosed_witness:
  "ListenAndServe (New ''8080'' ())
     \<lparr>serve_end = Some (4, ErrServerClosed), pick_done = False, lnerr = None, in_flight = None, poll_lag = 0\<rparr>
     (WithCancel Background (Some 7))
   = Returns \<lparr>ret = None, returned_at = 4,
              trace = [Go_ListenAndServe, Recv_errC (Some ErrServerClosed)]\<rparr>
   \<and> outcome_of \<lparr>ret = None, returned_at = 4,
              trace = [Go_ListenAndServe, Recv_errC (Some ErrServerClosed)]\<rparr> = Some CleanExit"
proof -
  let ?w = "\<lparr>serve_end = Some (4, ErrServerClosed), pick_done = False, lnerr = None,
             in_flight = None, poll_lag = 0\<rparr>"
  let ?ctx = "WithCancel Background (Some 7)"
  let ?r = "\<lparr>ret = None, returned_at = 4,
              trace = [Go_ListenAndServe, Recv_errC (Some ErrServerClosed)]\<rparr>"
  have c: "select_first (Done_at ?ctx) (errC ?w) (pick_done ?w)
             = Some (4, ErrRecv (Some ErrServerClosed))"
    by (simp add: select_first_def errC_def)
  from serve_end_clean_iff_ErrServerClosed [OF New_pointer c, of "''8080''" "()"]
  obtain r where r: "ListenAndServe (New ''8080'' ()) ?w ?ctx = Returns r"
    and o: "outcome_of r = Some CleanExit"
    by auto
  have run: "ListenAndServe (New ''8080'' ()) ?w ?ctx = Returns ?r"
    by (simp add: ListenAndServe_recv [OF New_pointer c])
  from r run have "r = ?r" by simp
  with o have "outcome_of ?r = Some CleanExit" by simp
  with run show ?thesis by (intro conjI)
qed

text \<open>
  C5 says that a serve loop ending first with anything but this run's own shutdown closure
  gives an abnormal exit with a cause. The clean-closure marker can reach a run that began
  no shutdown: a server value used a second time, after an earlier run shut it down,
  answers \<^verbatim>\<open>ErrServerClosed\<close> at once. The run then returns \<^verbatim>\<open>nil\<close>, not an abnormal exit.
\<close>

theorem foreign_clean_closure_counterexample:
  "ListenAndServe (New ''8080'' ())
     \<lparr>serve_end = Some (0, ErrServerClosed), pick_done = False, lnerr = None, in_flight = None, poll_lag = 0\<rparr>
     (WithCancel Background None)
   = Returns \<lparr>ret = None, returned_at = 0,
              trace = [Go_ListenAndServe, Recv_errC (Some ErrServerClosed)]\<rparr>
   \<and> shutdown_calls [Go_ListenAndServe, Recv_errC (Some ErrServerClosed)] = []
   \<and> outcome_of \<lparr>ret = None, returned_at = 0,
              trace = [Go_ListenAndServe, Recv_errC (Some ErrServerClosed)]\<rparr>
       \<noteq> Some (AbnormalExit ErrServerClosed)"
  by (simp add: ListenAndServe_def New_def select_first_def errC_def outcome_of_def)

text \<open>
  C5, as the package has it. When the serve loop ends first, at \<open>ts\<close>, with any error
  other than \<^verbatim>\<open>http.ErrServerClosed\<close> (a bind failure on an occupied port, say), the run
  returns that error, which is not \<^verbatim>\<open>nil\<close>, as the cause of an abnormal exit; it returns
  at \<open>ts\<close> itself, calls \<^verbatim>\<open>Shutdown\<close> not once, and does so also when the context is
  never done.
\<close>

theorem serve_fault_is_AbnormalExit:
  assumes "s srv = Some hs"
    and "serve_end w = Some (ts, e)"
    and "e \<noteq> ErrServerClosed"
    and "Done_at ctx = None \<or> (\<exists>tc. Done_at ctx = Some tc \<and> ts < tc)"
  shows "ListenAndServe srv w ctx =
           Returns \<lparr>ret = Some e, returned_at = ts,
                    trace = [Go_ListenAndServe, Recv_errC (Some e)]\<rparr> \<and>
         outcome_of \<lparr>ret = Some e, returned_at = ts,
                    trace = [Go_ListenAndServe, Recv_errC (Some e)]\<rparr> = Some (AbnormalExit e) \<and>
         shutdown_calls [Go_ListenAndServe, Recv_errC (Some e)] = [] \<and>
         observed [Go_ListenAndServe, Recv_errC (Some e)] = [ErrRecv (Some e)]"
proof -
  from assms(2,4)
  have "select_first (Done_at ctx) (errC w) (pick_done w) = Some (ts, ErrRecv (Some e))"
    by (auto simp add: select_first_def errC_def)
  from ListenAndServe_recv [OF assms(1) this] assms(3) show ?thesis
    by (simp add: outcome_of_def)
qed

theorem serve_fault_is_AbnormalExit_witness:
  "ListenAndServe (New ''8080'' ())
     \<lparr>serve_end = Some (0, OtherError ''address already in use''), pick_done = True,
      lnerr = None, in_flight = Some 0, poll_lag = 0\<rparr>
     Background
   = Returns \<lparr>ret = Some (OtherError ''address already in use''), returned_at = 0,
              trace = [Go_ListenAndServe,
                       Recv_errC (Some (OtherError ''address already in use''))]\<rparr>
   \<and> outcome_of \<lparr>ret = Some (OtherError ''address already in use''), returned_at = 0,
              trace = [Go_ListenAndServe,
                       Recv_errC (Some (OtherError ''address already in use''))]\<rparr>
       = Some (AbnormalExit (OtherError ''address already in use''))"
proof -
  let ?w = "\<lparr>serve_end = Some (0, OtherError ''address already in use''), pick_done = True,
             lnerr = None, in_flight = Some 0, poll_lag = 0\<rparr>"
  have h2: "serve_end ?w = Some (0, OtherError ''address already in use'')" by simp
  have h3: "OtherError ''address already in use'' \<noteq> ErrServerClosed" by simp
  have h4: "Done_at Background = None \<or> (\<exists>tc. Done_at Background = Some tc \<and> 0 < tc)"
    by simp
  from serve_fault_is_AbnormalExit [OF New_pointer h2 h3 h4, of "''8080''" "()"]
  show ?thesis by (elim conjE) (intro conjI)
qed

section \<open>The cancellation comes first\<close>

text \<open>
  C2 says that a run whose cancellation fires before any fault of the serve loop returns a
  clean exit or a shutdown timeout, never an abnormal exit. The package returns what
  \<^verbatim>\<open>Shutdown\<close> returns, and that may be the error of closing a listener: here the context is
  cancelled at instant 5, the serve loop never fails, nothing is in flight, and the run
  returns the close error. It is not \<^verbatim>\<open>nil\<close> and not the timeout, so it is neither of
  the two outcomes the claim allows.
\<close>

theorem cancel_first_listener_error_counterexample:
  "ListenAndServe (New ''8080'' ())
     \<lparr>serve_end = None, pick_done = True, lnerr = Some (OtherError ''close failed''),
      in_flight = Some 0, poll_lag = 0\<rparr>
     (WithCancel Background (Some 5))
   = Returns \<lparr>ret = Some (OtherError ''close failed''), returned_at = 5,
              trace = [Go_ListenAndServe, Recv_Done,
                       Call_Shutdown (WithDeadline Background 10000000005)]\<rparr>
   \<and> Some (OtherError ''close failed'') \<noteq> (None :: error)
   \<and> Some (OtherError ''close failed'') \<noteq> Some DeadlineExceeded
   \<and> outcome_of \<lparr>ret = Some (OtherError ''close failed''), returned_at = 5,
              trace = [Go_ListenAndServe, Recv_Done,
                       Call_Shutdown (WithDeadline Background 10000000005)]\<rparr> = None"
  by (simp add: ListenAndServe_def New_def select_first_def errC_def outcome_of_def
      shutdown_def http_Shutdown_def drain_def WithTimeout_def Second_def)

text \<open>
  C2, as the package has it. When the context is done at \<open>tc\<close> and the serve loop has
  not ended by then (it never does, or does later), the run returns, and what it returns
  is the result of the one call of \<^verbatim>\<open>Shutdown\<close> under the ten-second context, value and
  instant. That value is the listeners' close result when \<^verbatim>\<open>Shutdown\<close> finds the
  connections idle within the ten seconds, and the deadline's error otherwise. So the caller
  receives \<^verbatim>\<open>nil\<close> (a clean exit) or \<^verbatim>\<open>context.DeadlineExceeded\<close> (a shutdown timeout)
  whenever closing the listeners gave no error; a close error is handed on as it is.
\<close>

theorem cancel_first_returns_Shutdown_value:
  assumes "s srv = Some hs"
    and "Done_at ctx = Some tc"
    and "serve_end w = None \<or> (\<exists>ts e. serve_end w = Some (ts, e) \<and> tc < ts)"
  shows "\<exists>t err.
           http_Shutdown w tc (WithTimeout tc Background (10 * Second)) = Returns (t, err) \<and>
           ListenAndServe srv w ctx =
             Returns \<lparr>ret = err, returned_at = t,
                      trace = [Go_ListenAndServe, Recv_Done,
                               Call_Shutdown (WithTimeout tc Background (10 * Second))]\<rparr> \<and>
           (\<forall>d. drain w = Some d \<and> d \<le> 10 * Second \<longrightarrow> err = lnerr w) \<and>
           (drain w = None \<or> (\<exists>d. drain w = Some d \<and> 10 * Second < d) \<longrightarrow>
              err = Some DeadlineExceeded) \<and>
           (lnerr w = None \<longrightarrow> err = None \<or> err = Some DeadlineExceeded) \<and>
           (lnerr w = None \<longrightarrow>
              outcome_of \<lparr>ret = err, returned_at = t,
                      trace = [Go_ListenAndServe, Recv_Done,
                               Call_Shutdown (WithTimeout tc Background (10 * Second))]\<rparr>
                = Some CleanExit \<or>
              outcome_of \<lparr>ret = err, returned_at = t,
                      trace = [Go_ListenAndServe, Recv_Done,
                               Call_Shutdown (WithTimeout tc Background (10 * Second))]\<rparr>
                = Some ShutdownTimeout)"
proof -
  from assms(2,3)
  have "select_first (Done_at ctx) (errC w) (pick_done w) = Some (tc, CtxDone)"
    by (auto simp add: select_first_def errC_def)
  from ListenAndServe_cancel [OF assms(1) this] show ?thesis
    by (auto simp add: WithTimeout_def http_Shutdown_fresh outcome_of_def split: option.splits)
qed

theorem cancel_first_returns_Shutdown_value_witness:
  "ListenAndServe (New ''8080'' ())
     \<lparr>serve_end = Some (9, OtherError ''accept failed''), pick_done = False, lnerr = None,
      in_flight = Some 3000000, poll_lag = 200000\<rparr>
     (WithCancel Background (Some 4))
   = Returns \<lparr>ret = None, returned_at = 3200004,
              trace = [Go_ListenAndServe, Recv_Done,
                       Call_Shutdown (WithDeadline Background 10000000004)]\<rparr>
   \<and> http_Shutdown
       \<lparr>serve_end = Some (9, OtherError ''accept failed''), pick_done = False, lnerr = None,
        in_flight = Some 3000000, poll_lag = 200000\<rparr> 4 (WithDeadline Background 10000000004)
     = Returns (3200004, None)"
proof -
  let ?w = "\<lparr>serve_end = Some (9, OtherError ''accept failed''), pick_done = False,
             lnerr = None, in_flight = Some 3000000, poll_lag = 200000\<rparr>"
  let ?ctx = "WithCancel Background (Some 4)"
  have h2: "Done_at ?ctx = Some 4" by simp
  have h3: "serve_end ?w = None \<or> (\<exists>ts e. serve_end ?w = Some (ts, e) \<and> 4 < ts)" by simp
  have fresh: "WithTimeout 4 Background (10 * Second) = WithDeadline Background 10000000004"
    by (simp add: WithTimeout_def Second_def)
  have sd: "http_Shutdown ?w 4 (WithDeadline Background 10000000004) = Returns (3200004, None)"
    by (simp add: http_Shutdown_def drain_def)
  from cancel_first_returns_Shutdown_value [OF New_pointer h2 h3, of "''8080''" "()"]
  obtain t err
    where "http_Shutdown ?w 4 (WithTimeout 4 Background (10 * Second)) = Returns (t, err)"
      and "ListenAndServe (New ''8080'' ()) ?w ?ctx =
             Returns \<lparr>ret = err, returned_at = t,
                      trace = [Go_ListenAndServe, Recv_Done,
                               Call_Shutdown (WithTimeout 4 Background (10 * Second))]\<rparr>"
    by blast
  with fresh sd show ?thesis by simp
qed

text \<open>
  C3. When the cancellation wins the race, at \<open>tc\<close>, the run calls \<^verbatim>\<open>Shutdown\<close> once and
  returns its result, and the context of that call is
  \<^verbatim>\<open>context.WithTimeout(context.Background(), 10*time.Second)\<close> made at \<open>tc\<close>: a deadline
  ten seconds (\<open>10\<^sup>1\<^sup>0\<close> nanoseconds) after \<open>tc\<close> on the background context. It
  is not the caller's context, which is done at \<open>tc\<close> already: the run still waits for
  the connections, up to \<open>tc\<close> plus ten seconds, returning the listeners' result when
  \<^verbatim>\<open>Shutdown\<close> finds them idle by then and the deadline's error at the deadline otherwise.
  Nor does anything else of the caller's context enter: every context with which the
  cancellation wins at \<open>tc\<close> gives the same run.
\<close>

theorem shutdown_deadline_is_fresh:
  assumes "s srv = Some hs"
    and "select_first (Done_at ctx) (errC w) (pick_done w) = Some (tc, CtxDone)"
  shows "\<exists>t err.
           Done_at ctx = Some tc \<and>
           WithTimeout tc Background (10 * Second) = WithDeadline Background (tc + 10000000000) \<and>
           Done_at (WithDeadline Background (tc + 10000000000)) = Some (tc + 10000000000) \<and>
           http_Shutdown w tc (WithDeadline Background (tc + 10000000000)) = Returns (t, err) \<and>
           ListenAndServe srv w ctx =
             Returns \<lparr>ret = err, returned_at = t,
                      trace = [Go_ListenAndServe, Recv_Done,
                               Call_Shutdown (WithDeadline Background (tc + 10000000000))]\<rparr> \<and>
           (\<forall>d. drain w = Some d \<and> d \<le> 10000000000 \<longrightarrow> t = tc + d \<and> err = lnerr w) \<and>
           (drain w = None \<or> (\<exists>d. drain w = Some d \<and> 10000000000 < d) \<longrightarrow>
              t = tc + 10000000000 \<and> err = Some DeadlineExceeded) \<and>
           (\<forall>ctx'. select_first (Done_at ctx') (errC w) (pick_done w) = Some (tc, CtxDone) \<longrightarrow>
              ListenAndServe srv w ctx' = ListenAndServe srv w ctx)"
proof -
  have same: "ListenAndServe srv w ctx' = ListenAndServe srv w ctx"
    if "select_first (Done_at ctx') (errC w) (pick_done w) = Some (tc, CtxDone)" for ctx'
    using ListenAndServe_cancel [OF assms(1) that] ListenAndServe_cancel [OF assms]
    by simp
  have fresh: "http_Shutdown w tc (WithDeadline Background (tc + 10000000000)) =
     (case drain w of
        None \<Rightarrow> Returns (tc + 10000000000, Some DeadlineExceeded)
      | Some d \<Rightarrow>
          if d \<le> 10000000000 then Returns (tc + d, lnerr w)
          else Returns (tc + 10000000000, Some DeadlineExceeded))"
    using http_Shutdown_fresh [of w tc] by (simp add: ten_seconds cong: option.case_cong if_cong)
  from ListenAndServe_cancel [OF assms]
  have run: "ListenAndServe srv w ctx =
     Returns \<lparr>ret = (case drain w of None \<Rightarrow> Some DeadlineExceeded
                      | Some d \<Rightarrow> if d \<le> 10000000000 then lnerr w else Some DeadlineExceeded),
              returned_at = (case drain w of None \<Rightarrow> tc + 10000000000
                      | Some d \<Rightarrow> if d \<le> 10000000000 then tc + d else tc + 10000000000),
              trace = [Go_ListenAndServe, Recv_Done,
                       Call_Shutdown (WithDeadline Background (tc + 10000000000))]\<rparr>"
    by (simp add: ten_seconds cong: option.case_cong if_cong)
  from select_first_cancel_Done [OF assms(2)] same fresh run show ?thesis
    by (auto simp add: WithTimeout_def ten_seconds split: option.splits)
qed

theorem shutdown_deadline_is_fresh_witness:
  "ListenAndServe (New ''8080'' ())
     \<lparr>serve_end = None, pick_done = False, lnerr = None, in_flight = None, poll_lag = 0\<rparr>
     (WithDeadline (WithCancel Background (Some 8)) 6)
   = Returns \<lparr>ret = Some DeadlineExceeded, returned_at = 10000000006,
              trace = [Go_ListenAndServe, Recv_Done,
                       Call_Shutdown (WithDeadline Background 10000000006)]\<rparr>
   \<and> Done_at (WithDeadline (WithCancel Background (Some 8)) 6) = Some 6
   \<and> Done_at (WithDeadline Background 10000000006) = Some 10000000006
   \<and> http_Shutdown
       \<lparr>serve_end = None, pick_done = False, lnerr = None, in_flight = None, poll_lag = 0\<rparr>
       6 (WithDeadline Background 10000000006)
     = Returns (10000000006, Some DeadlineExceeded)"
proof -
  let ?w = "\<lparr>serve_end = None, pick_done = False, lnerr = None, in_flight = None,
             poll_lag = 0\<rparr>"
  let ?ctx = "WithDeadline (WithCancel Background (Some 8)) 6"
  have c: "select_first (Done_at ?ctx) (errC ?w) (pick_done ?w) = Some (6, CtxDone)"
    by (simp add: select_first_def errC_def)
  have n: "drain ?w = None" by (simp add: drain_def)
  from shutdown_deadline_is_fresh [OF New_pointer c, of "''8080''" "()"]
  obtain t err
    where d: "Done_at ?ctx = Some 6"
      and f: "Done_at (WithDeadline Background (6 + 10000000000)) = Some (6 + 10000000000)"
      and sd: "http_Shutdown ?w 6 (WithDeadline Background (6 + 10000000000)) = Returns (t, err)"
      and run: "ListenAndServe (New ''8080'' ()) ?w ?ctx =
             Returns \<lparr>ret = err, returned_at = t,
                      trace = [Go_ListenAndServe, Recv_Done,
                               Call_Shutdown (WithDeadline Background (6 + 10000000000))]\<rparr>"
      and late: "drain ?w = None \<or> (\<exists>d. drain ?w = Some d \<and> 10000000000 < d) \<longrightarrow>
              t = 6 + 10000000000 \<and> err = Some DeadlineExceeded"
    by blast
  from late n have "t = 10000000006" and "err = Some DeadlineExceeded" by simp_all
  with d f sd run show ?thesis by simp
qed

text \<open>
  C4 says that in-flight work finishing before the deadline gives a clean exit. Two runs
  say otherwise, both cancelled at instant 5. In the first the requests finish after 3 ms,
  \<^verbatim>\<open>Shutdown\<close> sees it at its poll 0.2 ms later, and the run returns what closing the
  listeners returned, an error. In the second nothing fails and the requests finish after
  9.9 s, before the deadline, but the next poll of \<^verbatim>\<open>Shutdown\<close> would come 0.3 s later:
  the deadline is first and the run returns the timeout.
\<close>

theorem drained_in_time_not_clean_counterexample:
  "ListenAndServe (New ''8080'' ())
     \<lparr>serve_end = None, pick_done = False, lnerr = Some (OtherError ''close failed''),
      in_flight = Some 3000000, poll_lag = 200000\<rparr>
     (WithCancel Background (Some 5))
   = Returns \<lparr>ret = Some (OtherError ''close failed''), returned_at = 3200005,
              trace = [Go_ListenAndServe, Recv_Done,
                       Call_Shutdown (WithDeadline Background 10000000005)]\<rparr>
   \<and> outcome_of \<lparr>ret = Some (OtherError ''close failed''), returned_at = 3200005,
              trace = [Go_ListenAndServe, Recv_Done,
                       Call_Shutdown (WithDeadline Background 10000000005)]\<rparr> \<noteq> Some CleanExit
   \<and> ListenAndServe (New ''8080'' ())
     \<lparr>serve_end = None, pick_done = False, lnerr = None,
      in_flight = Some 9900000000, poll_lag = 300000000\<rparr>
     (WithCancel Background (Some 5))
   = Returns \<lparr>ret = Some DeadlineExceeded, returned_at = 10000000005,
              trace = [Go_ListenAndServe, Recv_Done,
                       Call_Shutdown (WithDeadline Background 10000000005)]\<rparr>
   \<and> (9900000000 :: nat) < 10 * Second
   \<and> outcome_of \<lparr>ret = Some DeadlineExceeded, returned_at = 10000000005,
              trace = [Go_ListenAndServe, Recv_Done,
                       Call_Shutdown (WithDeadline Background 10000000005)]\<rparr> \<noteq> Some CleanExit"
  by (simp add: ListenAndServe_def New_def select_first_def errC_def outcome_of_def
      shutdown_def http_Shutdown_def drain_def WithTimeout_def Second_def)

text \<open>
  C4, as the package has it. After the cancellation won: if \<^verbatim>\<open>Shutdown\<close> finds all work in
  flight finished before the ten seconds are over (it looks when called and at each poll)
  and closing the listeners gave no error, the run returns \<^verbatim>\<open>nil\<close>, a clean exit; if the
  deadline comes before \<^verbatim>\<open>Shutdown\<close> has found that, the run returns
  \<^verbatim>\<open>context.DeadlineExceeded\<close>, a shutdown timeout, which is not \<^verbatim>\<open>nil\<close> and so is told
  apart from the clean exit. Either way it is the result of \<^verbatim>\<open>Shutdown\<close> under the
  ten-second context that is returned.
\<close>

theorem shutdown_clean_or_timeout:
  assumes "s srv = Some hs"
    and "select_first (Done_at ctx) (errC w) (pick_done w) = Some (tc, CtxDone)"
  shows "(\<forall>d. drain w = Some d \<and> d < 10 * Second \<and> lnerr w = None \<longrightarrow>
            (\<exists>r. ListenAndServe srv w ctx = Returns r \<and> ret r = None \<and>
                 outcome_of r = Some CleanExit \<and>
                 http_Shutdown w tc (WithTimeout tc Background (10 * Second))
                   = Returns (returned_at r, ret r))) \<and>
         (drain w = None \<or> (\<exists>d. drain w = Some d \<and> 10 * Second < d) \<longrightarrow>
            (\<exists>r. ListenAndServe srv w ctx = Returns r \<and> ret r = Some DeadlineExceeded \<and>
                 ret r \<noteq> None \<and>
                 outcome_of r = Some ShutdownTimeout \<and> outcome_of r \<noteq> Some CleanExit \<and>
                 http_Shutdown w tc (WithTimeout tc Background (10 * Second))
                   = Returns (returned_at r, ret r)))"
  using ListenAndServe_cancel [OF assms]
  by (auto simp add: outcome_of_def WithTimeout_def http_Shutdown_fresh)

theorem shutdown_clean_or_timeout_witness:
  "ListenAndServe (New ''8080'' ())
     \<lparr>serve_end = None, pick_done = False, lnerr = None,
      in_flight = Some 3000000000, poll_lag = 400000000\<rparr>
     (WithCancel Background (Some 2))
   = Returns \<lparr>ret = None, returned_at = 3400000002,
              trace = [Go_ListenAndServe, Recv_Done,
                       Call_Shutdown (WithDeadline Background 10000000002)]\<rparr>
   \<and> ListenAndServe (New ''8080'' ())
     \<lparr>serve_end = None, pick_done = False, lnerr = None,
      in_flight = Some 30000000000, poll_lag = 400000000\<rparr>
     (WithCancel Background (Some 2))
   = Returns \<lparr>ret = Some DeadlineExceeded, returned_at = 10000000002,
              trace = [Go_ListenAndServe, Recv_Done,
                       Call_Shutdown (WithDeadline Background 10000000002)]\<rparr>"
proof -
  let ?w = "\<lparr>serve_end = None, pick_done = False, lnerr = None,
             in_flight = Some 3000000000, poll_lag = 400000000\<rparr>"
  let ?w' = "\<lparr>serve_end = None, pick_done = False, lnerr = None,
             in_flight = Some 30000000000, poll_lag = 400000000\<rparr>"
  let ?ctx = "WithCancel Background (Some 2)"
  let ?r = "\<lparr>ret = None, returned_at = 3400000002,
              trace = [Go_ListenAndServe, Recv_Done,
                       Call_Shutdown (WithDeadline Background 10000000002)]\<rparr>"
  let ?r' = "\<lparr>ret = Some DeadlineExceeded, returned_at = 10000000002,
              trace = [Go_ListenAndServe, Recv_Done,
                       Call_Shutdown (WithDeadline Background 10000000002)]\<rparr>"
  have c: "select_first (Done_at ?ctx) (errC ?w) (pick_done ?w) = Some (2, CtxDone)"
    by (simp add: select_first_def errC_def)
  have c': "select_first (Done_at ?ctx) (errC ?w') (pick_done ?w') = Some (2, CtxDone)"
    by (simp add: select_first_def errC_def)
  from shutdown_clean_or_timeout [OF New_pointer c, of "''8080''" "()"]
  obtain r where r: "ListenAndServe (New ''8080'' ()) ?w ?ctx = Returns r"
    and n: "ret r = None"
    by (auto simp add: Second_def drain_def)
  from shutdown_clean_or_timeout [OF New_pointer c', of "''8080''" "()"]
  obtain r' where r': "ListenAndServe (New ''8080'' ()) ?w' ?ctx = Returns r'"
    and n': "ret r' = Some DeadlineExceeded"
    by (auto simp add: Second_def drain_def)
  have run: "ListenAndServe (New ''8080'' ()) ?w ?ctx = Returns ?r"
    by (simp add: ListenAndServe_cancel [OF New_pointer c] Second_def drain_def)
  have run': "ListenAndServe (New ''8080'' ()) ?w' ?ctx = Returns ?r'"
    by (simp add: ListenAndServe_cancel [OF New_pointer c'] Second_def drain_def)
  from r n run have "ListenAndServe (New ''8080'' ()) ?w ?ctx = Returns (?r\<lparr>ret := ret r\<rparr>)"
    by simp
  moreover
  from r' n' run'
  have "ListenAndServe (New ''8080'' ()) ?w' ?ctx = Returns (?r'\<lparr>ret := ret r'\<rparr>)"
    by simp
  ultimately show ?thesis using n n' by simp
qed

text \<open>
  C10. On the cancellation path the run returns the result of the one call
  \<^verbatim>\<open>s.s.Shutdown(ctx)\<close> as it is, at the instant that call returns. So when the drain ends
  inside the ten seconds and closing the listeners failed with an error other than the
  deadline's, that very error is what the caller gets, and it is none of the three named
  outcomes.
\<close>

theorem cancel_path_returns_Shutdown_result:
  assumes "s srv = Some hs"
    and "select_first (Done_at ctx) (errC w) (pick_done w) = Some (tc, CtxDone)"
  shows "\<exists>t err. http_Shutdown w tc (WithTimeout tc Background (10 * Second)) = Returns (t, err) \<and>
           ListenAndServe srv w ctx =
             Returns \<lparr>ret = err, returned_at = t,
                      trace = [Go_ListenAndServe, Recv_Done,
                               Call_Shutdown (WithTimeout tc Background (10 * Second))]\<rparr> \<and>
           (\<forall>d e. drain w = Some d \<and> d \<le> 10 * Second \<and> lnerr w = Some e \<and>
                  e \<noteq> DeadlineExceeded \<longrightarrow>
              err = Some e \<and>
              outcome_of \<lparr>ret = err, returned_at = t,
                      trace = [Go_ListenAndServe, Recv_Done,
                               Call_Shutdown (WithTimeout tc Background (10 * Second))]\<rparr> = None)"
  using assms
  by (auto simp add: ListenAndServe_def shutdown_def http_Shutdown_def WithTimeout_def
      outcome_of_def max_def split: option.splits)

theorem cancel_path_returns_Shutdown_result_witness:
  "ListenAndServe (New ''8080'' ())
     \<lparr>serve_end = None, pick_done = False, lnerr = Some (OtherError ''close failed''),
      in_flight = Some 3000000, poll_lag = 200000\<rparr>
     (WithDeadline Background 3)
   = Returns \<lparr>ret = Some (OtherError ''close failed''), returned_at = 3200003,
              trace = [Go_ListenAndServe, Recv_Done,
                       Call_Shutdown (WithDeadline Background 10000000003)]\<rparr>
   \<and> http_Shutdown
       \<lparr>serve_end = None, pick_done = False, lnerr = Some (OtherError ''close failed''),
        in_flight = Some 3000000, poll_lag = 200000\<rparr> 3 (WithDeadline Background 10000000003)
     = Returns (3200003, Some (OtherError ''close failed''))
   \<and> outcome_of \<lparr>ret = Some (OtherError ''close failed''), returned_at = 3200003,
              trace = [Go_ListenAndServe, Recv_Done,
                       Call_Shutdown (WithDeadline Background 10000000003)]\<rparr> = None"
proof -
  let ?w = "\<lparr>serve_end = None, pick_done = False, lnerr = Some (OtherError ''close failed''),
             in_flight = Some 3000000, poll_lag = 200000\<rparr>"
  let ?ctx = "WithDeadline Background 3"
  have c: "select_first (Done_at ?ctx) (errC ?w) (pick_done ?w) = Some (3, CtxDone)"
    by (simp add: select_first_def errC_def)
  have sd: "http_Shutdown ?w 3 (WithDeadline Background 10000000003)
     = Returns (3200003, Some (OtherError ''close failed''))"
    by (simp add: http_Shutdown_def drain_def)
  from cancel_path_returns_Shutdown_result [OF New_pointer c, of "''8080''" "()"] sd
  show ?thesis
    by (simp add: WithTimeout_def Second_def drain_def)
qed

section \<open>The race as a whole\<close>

text \<open>
  C6. The first event wins. With the context done at \<open>tc\<close> and the serve loop ending at
  \<open>ts\<close> with \<open>e\<close>: if \<open>tc < ts\<close> the run returns having seen the cancellation and
  nothing else, and the same run results whatever value the abandoned serve loop delivers
  at \<open>ts\<close>, so the outcome is the same too; if \<open>ts < tc\<close> the run returns having
  seen the value \<open>e\<close> and nothing else. Either way one signal is observed, once.
\<close>

theorem first_event_wins:
  assumes "s srv = Some hs"
    and "Done_at ctx = Some tc"
    and "serve_end w = Some (ts, e)"
  shows "(tc < ts \<longrightarrow>
            (\<exists>r. ListenAndServe srv w ctx = Returns r \<and> observed (trace r) = [CtxDone] \<and>
                 (\<forall>e'. ListenAndServe srv (w\<lparr>serve_end := Some (ts, e')\<rparr>) ctx = Returns r))) \<and>
         (ts < tc \<longrightarrow>
            (\<exists>r. ListenAndServe srv w ctx = Returns r \<and>
                 observed (trace r) = [ErrRecv (Some e)]))"
proof (intro conjI impI)
  let ?r = "\<lparr>ret = (case drain w of None \<Rightarrow> Some DeadlineExceeded
                      | Some d \<Rightarrow> if d \<le> 10 * Second then lnerr w else Some DeadlineExceeded),
              returned_at = (case drain w of None \<Rightarrow> tc + 10 * Second
                      | Some d \<Rightarrow> if d \<le> 10 * Second then tc + d else tc + 10 * Second),
              trace = [Go_ListenAndServe, Recv_Done,
                       Call_Shutdown (WithDeadline Background (tc + 10 * Second))]\<rparr>"
  assume lt: "tc < ts"
  have "select_first (Done_at ctx) (errC (w\<lparr>serve_end := Some (ts, e')\<rparr>))
          (pick_done (w\<lparr>serve_end := Some (ts, e')\<rparr>)) = Some (tc, CtxDone)" for e'
    using assms(2) lt by (simp add: select_first_def errC_def)
  from ListenAndServe_cancel [OF assms(1) this]
  have run: "ListenAndServe srv (w\<lparr>serve_end := Some (ts, e')\<rparr>) ctx = Returns ?r" for e'
    by (simp cong: option.case_cong if_cong)
  from assms(3) have "w\<lparr>serve_end := Some (ts, e)\<rparr> = w" by simp
  with run [of e] have "ListenAndServe srv w ctx = Returns ?r"
    by simp
  with run
  show "\<exists>r. ListenAndServe srv w ctx = Returns r \<and> observed (trace r) = [CtxDone] \<and>
          (\<forall>e'. ListenAndServe srv (w\<lparr>serve_end := Some (ts, e')\<rparr>) ctx = Returns r)"
    by simp
next
  assume lt: "ts < tc"
  with assms(2,3)
  have "select_first (Done_at ctx) (errC w) (pick_done w) = Some (ts, ErrRecv (Some e))"
    by (simp add: select_first_def errC_def)
  from ListenAndServe_recv [OF assms(1) this]
  show "\<exists>r. ListenAndServe srv w ctx = Returns r \<and> observed (trace r) = [ErrRecv (Some e)]"
    by simp
qed

theorem first_event_wins_witness:
  "ListenAndServe (New ''8080'' ())
     \<lparr>serve_end = Some (9, ErrServerClosed), pick_done = False, lnerr = None, in_flight = Some 3000000, poll_lag = 200000\<rparr>
     (WithCancel Background (Some 4))
   = Returns \<lparr>ret = None, returned_at = 3200004,
              trace = [Go_ListenAndServe, Recv_Done,
                       Call_Shutdown (WithDeadline Background 10000000004)]\<rparr>
   \<and> ListenAndServe (New ''8080'' ())
     \<lparr>serve_end = Some (9, OtherError ''accept failed''), pick_done = False, lnerr = None,
      in_flight = Some 3000000, poll_lag = 200000\<rparr>
     (WithCancel Background (Some 4))
   = Returns \<lparr>ret = None, returned_at = 3200004,
              trace = [Go_ListenAndServe, Recv_Done,
                       Call_Shutdown (WithDeadline Background 10000000004)]\<rparr>"
proof -
  let ?w = "\<lparr>serve_end = Some (9, ErrServerClosed), pick_done = False, lnerr = None,
             in_flight = Some 3000000, poll_lag = 200000\<rparr>"
  let ?ctx = "WithCancel Background (Some 4)"
  let ?r = "\<lparr>ret = None, returned_at = 3200004,
              trace = [Go_ListenAndServe, Recv_Done,
                       Call_Shutdown (WithDeadline Background 10000000004)]\<rparr>"
  have h2: "Done_at ?ctx = Some 4" by simp
  have h3: "serve_end ?w = Some (9, ErrServerClosed)" by simp
  from first_event_wins [OF New_pointer h2 h3, of "''8080''" "()"]
  obtain r where r: "ListenAndServe (New ''8080'' ()) ?w ?ctx = Returns r"
    and a: "\<forall>e'. ListenAndServe (New ''8080'' ()) (?w\<lparr>serve_end := Some (9, e')\<rparr>) ?ctx
                 = Returns r"
    by auto
  have c: "select_first (Done_at ?ctx) (errC ?w) (pick_done ?w) = Some (4, CtxDone)"
    by (simp add: select_first_def errC_def)
  have run: "ListenAndServe (New ''8080'' ()) ?w ?ctx = Returns ?r"
    by (simp add: ListenAndServe_cancel [OF New_pointer c] Second_def drain_def)
  from r run have "r = ?r" by simp
  with a have "ListenAndServe (New ''8080'' ())
      (?w\<lparr>serve_end := Some (9, OtherError ''accept failed'')\<rparr>) ?ctx = Returns ?r"
    by blast
  then have "ListenAndServe (New ''8080'' ())
     \<lparr>serve_end = Some (9, OtherError ''accept failed''), pick_done = False, lnerr = None,
      in_flight = Some 3000000, poll_lag = 200000\<rparr> ?ctx = Returns ?r"
    by simp
  with run show ?thesis by (intro conjI)
qed

text \<open>
  C7. Every call on a server built by \<^verbatim>\<open>New\<close>, with a context that is not \<^verbatim>\<open>nil\<close>, waits
  for the first of the two signals and then returns one value; nothing is thrown. While
  neither signal comes the call is still waiting and has produced nothing. Once the serve
  loop has ended or the context is done the call returns, and the run is determined in
  full: it has observed one signal and its last step is the decisive one. Either that is
  the receive of the serve loop's error \<open>e\<close>, and the run returns at that instant with
  \<open>e\<close> itself, or \<^verbatim>\<open>nil\<close> for the clean-closure marker; or it is the one call of
  \<^verbatim>\<open>Shutdown\<close> under the ten-second context made when the context was done, whose result,
  value and instant, is the run's. Every fault of the transport (a bind failure, a failed
  accept, a failed close of a listener, a drain that takes too long) thus comes back as
  the returned value.
\<close>

theorem run_single_outcome:
  "ListenAndServe (New port h) w ctx \<noteq> Panics \<and>
   (Done_at ctx = None \<and> serve_end w = None \<longrightarrow>
      ListenAndServe (New port h) w ctx = Blocks) \<and>
   (Done_at ctx \<noteq> None \<or> serve_end w \<noteq> None \<longrightarrow>
      (\<exists>r. ListenAndServe (New port h) w ctx = Returns r \<and>
           length (observed (trace r)) = 1 \<and>
           ((\<exists>ts e. serve_end w = Some (ts, e) \<and>
                    trace r = [Go_ListenAndServe, Recv_errC (Some e)] \<and>
                    returned_at r = ts \<and>
                    ret r = (if e = ErrServerClosed then None else Some e)) \<or>
            (\<exists>tc. Done_at ctx = Some tc \<and>
                  trace r = [Go_ListenAndServe, Recv_Done,
                             Call_Shutdown (WithTimeout tc Background (10 * Second))] \<and>
                  http_Shutdown w tc (WithTimeout tc Background (10 * Second))
                    = Returns (returned_at r, ret r)))))"
proof (cases "select_first (Done_at ctx) (errC w) (pick_done w)")
  case None
  then have "Done_at ctx = None \<and> serve_end w = None"
    by (simp add: select_first_None_iff)
  moreover from None have "ListenAndServe (New port h) w ctx = Blocks"
    by (simp add: ListenAndServe_def New_pointer)
  ultimately show ?thesis by simp
next
  case (Some p)
  obtain t c where p: "p = (t, c)" by (cases p)
  from Some have ev: "Done_at ctx \<noteq> None \<or> serve_end w \<noteq> None"
    using select_first_None_iff [of ctx w] by auto
  show ?thesis
  proof (cases c)
    case CtxDone
    with Some p
    have sel: "select_first (Done_at ctx) (errC w) (pick_done w) = Some (t, CtxDone)"
      by simp
    from ListenAndServe_cancel [OF New_pointer [of port h] sel]
      select_first_cancel_Done [OF sel] ev
    show ?thesis
      by (auto simp add: WithTimeout_def http_Shutdown_fresh split: option.splits)
  next
    case (ErrRecv err)
    with Some p
    have sel: "select_first (Done_at ctx) (errC w) (pick_done w) = Some (t, ErrRecv err)"
      by simp
    then obtain e where e: "serve_end w = Some (t, e)" "err = Some e"
      by (auto simp add: select_first_recv_iff)
    from ListenAndServe_recv [OF New_pointer [of port h] sel] e ev
    show ?thesis by auto
  qed
qed

theorem run_single_outcome_witness:
  "ListenAndServe (New ''0'' ())
     \<lparr>serve_end = Some (6, OtherError ''accept failed''), pick_done = True, lnerr = None,
      in_flight = None, poll_lag = 0\<rparr>
     (WithCancel Background (Some 6))
   = Returns \<lparr>ret = Some DeadlineExceeded, returned_at = 10000000006,
              trace = [Go_ListenAndServe, Recv_Done,
                       Call_Shutdown (WithDeadline Background 10000000006)]\<rparr>
   \<and> length (observed [Go_ListenAndServe, Recv_Done,
                       Call_Shutdown (WithDeadline Background 10000000006)]) = 1
   \<and> ListenAndServe (New ''0'' ())
     \<lparr>serve_end = None, pick_done = True, lnerr = None, in_flight = None, poll_lag = 0\<rparr>
     Background = Blocks"
proof -
  let ?w = "\<lparr>serve_end = Some (6, OtherError ''accept failed''), pick_done = True, lnerr = None,
             in_flight = None, poll_lag = 0\<rparr>"
  let ?v = "\<lparr>serve_end = None, pick_done = True, lnerr = None, in_flight = None,
              poll_lag = 0\<rparr>"
  let ?ctx = "WithCancel Background (Some 6)"
  let ?r = "\<lparr>ret = Some DeadlineExceeded, returned_at = 10000000006,
              trace = [Go_ListenAndServe, Recv_Done,
                       Call_Shutdown (WithDeadline Background 10000000006)]\<rparr>"
  have h: "Done_at ?ctx \<noteq> None \<or> serve_end ?w \<noteq> None" by simp
  from run_single_outcome [of "''0''" "()" ?w ?ctx] h
  obtain r where r: "ListenAndServe (New ''0'' ()) ?w ?ctx = Returns r"
    and l: "length (observed (trace r)) = 1"
    by blast
  have h0: "Done_at Background = None \<and> serve_end ?v = None" by simp
  from run_single_outcome [of "''0''" "()" ?v Background] h0
  have b: "ListenAndServe (New ''0'' ()) ?v Background = Blocks"
    by blast
  have c: "select_first (Done_at ?ctx) (errC ?w) (pick_done ?w) = Some (6, CtxDone)"
    by (simp add: select_first_def errC_def)
  have run: "ListenAndServe (New ''0'' ()) ?w ?ctx = Returns ?r"
    by (simp add: ListenAndServe_cancel [OF New_pointer c] Second_def drain_def)
  from r run have "r = ?r" by simp
  with l have "length (observed (trace ?r)) = 1" by simp
  with run b show ?thesis by simp
qed

end
